theory Spec2Isabelle
  imports Main
begin

section \<open>Strings, standard output and Python results\<close>

text \<open>
  A Python \<open>str\<close> is a sequence of Unicode code points, and \<open>len\<close> counts code points.
  A \<open>char\<close> of HOL is a byte, so a Python string is modelled as a list of code points
  (natural numbers); \<open>lit\<close> embeds an ASCII literal of the source, character by character.
\<close>

type_synonym pystr = "nat list"

definition lit :: "string \<Rightarrow> pystr" where
  "lit s = map of_char s"

text \<open>
  The only state outside the program that the script touches is the text written to
  \<open>sys.stdout\<close>. The world records that text, as written so far.
\<close>

record world =
  stdout :: pystr

text \<open>
  A statement either returns a value or leaves with an uncaught exception; both leave a
  world behind. \<open>bind_io\<close> is sequencing: an exception of the first part skips the rest.
\<close>

datatype py_exception = PyException string

type_synonym 'a io = "world \<Rightarrow> (py_exception + 'a) \<times> world"

definition ret :: "'a \<Rightarrow> 'a io" where
  "ret x w = (Inr x, w)"

definition bind_io :: "'a io \<Rightarrow> ('a \<Rightarrow> 'b io) \<Rightarrow> 'b io" where
  "bind_io m f w =
     (case m w of
        (Inl e, w') \<Rightarrow> (Inl e, w')
      | (Inr x, w') \<Rightarrow> f x w')"

definition seq_io :: "'a io \<Rightarrow> 'b io \<Rightarrow> 'b io" where
  "seq_io m k = bind_io m (\<lambda>_. k)"

text \<open>
  \<open>print(s)\<close> for a string \<open>s\<close>: the string, then a line feed (code point 10), appended to
  standard output; the call returns \<open>None\<close>. Writing to standard output is taken to
  succeed always.
\<close>

definition newline :: nat where
  "newline = 10"

definition print :: "pystr \<Rightarrow> unit io" where
  "print s w = (Inr (), w\<lparr>stdout := stdout w @ s @ [newline]\<rparr>)"

section \<open>The script\<close>

text \<open>
  \<^verbatim>\<open>
  def greet(name="World"):
      return f"Hello, {name}!"
  \<close>
  The parameter is optional: \<open>None\<close> is the call \<open>greet()\<close>, \<open>Some n\<close> the call \<open>greet(n)\<close>.
  \<open>bind_name\<close> is the binding of the parameter, with its default. For a string \<open>name\<close> the
  replacement field \<open>{name}\<close> of the f-string is the string itself.
\<close>

definition name_default :: pystr where
  "name_default = lit ''World''"

definition bind_name :: "pystr option \<Rightarrow> pystr" where
  "bind_name a = (case a of None \<Rightarrow> name_default | Some n \<Rightarrow> n)"

definition greet :: "pystr option \<Rightarrow> pystr" where
  "greet a = lit ''Hello, '' @ bind_name a @ lit ''!''"

text \<open>
  The call \<open>greet(...)\<close> as a statement run in a world: the body has one \<open>return\<close>, no
  \<open>raise\<close>, and reads only its parameter.
\<close>

definition greet_call :: "pystr option \<Rightarrow> pystr io" where
  "greet_call a = ret (greet a)"

text \<open>
  \<^verbatim>\<open>
  def main():
      print(greet())
      print(greet("Claude"))
      print(greet("GitHub Actions"))
  \<close>
\<close>

definition main :: "unit io" where
  "main =
     seq_io (bind_io (greet_call None) print)
       (seq_io (bind_io (greet_call (Some (lit ''Claude''))) print)
          (bind_io (greet_call (Some (lit ''GitHub Actions''))) print))"

section \<open>Observations used by the properties\<close>

text \<open>
  The lines of a text: each line ends at a line feed, which is not part of the line; text
  after the last line feed, if any, is a last line.
\<close>

fun lines_from :: "pystr \<Rightarrow> pystr \<Rightarrow> pystr list" where
  "lines_from cur [] = (if cur = [] then [] else [cur])"
| "lines_from cur (c # cs) =
     (if c = newline then cur # lines_from [] cs else lines_from (cur @ [c]) cs)"

definition text_lines :: "pystr \<Rightarrow> pystr list" where
  "text_lines t = lines_from [] t"

text \<open>
  Whitespace as Python's \<open>str.isspace\<close> and \<open>str.strip\<close> see it, and \<open>s.strip()\<close>: the
  string without its leading and trailing whitespace.
\<close>

definition is_space :: "nat \<Rightarrow> bool" where
  "is_space c =
     ((9 \<le> c \<and> c \<le> 13) \<or> (28 \<le> c \<and> c \<le> 32) \<or> c = 133 \<or> c = 160 \<or> c = 5760
      \<or> (8192 \<le> c \<and> c \<le> 8202) \<or> c = 8232 \<or> c = 8233 \<or> c = 8239 \<or> c = 8287
      \<or> c = 12288)"

definition strip :: "pystr \<Rightarrow> pystr" where
  "strip s = rev (dropWhile is_space (rev (dropWhile is_space s)))"

section \<open>The script as a program text\<close>

text \<open>
  Whether a call can fail, change what is outside it, or run forever is a question about
  the statements of the script. For these questions the script is also kept as a syntax
  tree, in the shape of Python's own \<open>ast\<close> module, and run by an interpreter of the
  fragment of Python it is written in, extended by \<open>while\<close> so that loops exist in it.
\<close>

datatype expr =
    Constant pystr
  | Name string
  | JoinedStr "expr list"
  | FormattedValue expr
  | Call expr "expr list"
  | CompareEq expr expr

datatype stmt =
    Expr expr
  | Return expr
  | If expr "stmt list" "stmt list"
  | While expr "stmt list"
  | FunctionDef string "string list" "expr list" "stmt list"

text \<open>
  Values: strings, \<open>None\<close>, booleans, functions (parameter names, the values of the
  defaults of the last parameters, body) and builtins. The state of a run extends the world
  by the behaviour of the output device, which says whether a write is taken given the text
  written so far, and by the module's global names. A frame holds the local names of a
  call; module-level code has none and binds global names.
\<close>

datatype val =
    VStr pystr
  | VNone
  | VBool bool
  | VFunction "string list" "val list" "stmt list"
  | VBuiltin string

datatype flow = Next | Returned val

record state = world +
  stdout_accepts :: "pystr \<Rightarrow> pystr \<Rightarrow> bool"
  globals :: "(string \<times> val) list"

type_synonym frame = "(string \<times> val) list option"

definition lookup_name :: "frame \<Rightarrow> state \<Rightarrow> string \<Rightarrow> py_exception + val" where
  "lookup_name fr st x =
     (case (case fr of None \<Rightarrow> None | Some l \<Rightarrow> map_of l x) of
        Some v \<Rightarrow> Inr v
      | None \<Rightarrow>
         (case map_of (globals st) x of
            Some v \<Rightarrow> Inr v
          | None \<Rightarrow> if x = ''print'' then Inr (VBuiltin ''print'')
                    else Inl (PyException ''NameError'')))"

definition store_name :: "frame \<Rightarrow> state \<Rightarrow> string \<Rightarrow> val \<Rightarrow> frame \<times> state" where
  "store_name fr st x v =
     (case fr of
        None \<Rightarrow> (None, st\<lparr>globals := (x, v) # globals st\<rparr>)
      | Some l \<Rightarrow> (Some ((x, v) # l), st))"

text \<open>
  \<open>format(v, "")\<close> and \<open>str(v)\<close>: a string is its own text. The text of a function holds
  its address, which is left out: such a value is refused. An f-string joins its parts;
  \<open>print\<close> writes the texts of its arguments, separated by spaces, and a line feed, and
  raises when the device refuses the write.
\<close>

fun format_value :: "val \<Rightarrow> py_exception + pystr" where
  "format_value (VStr s) = Inr s"
| "format_value VNone = Inr (lit ''None'')"
| "format_value (VBool b) = Inr (if b then lit ''True'' else lit ''False'')"
| "format_value v = Inl (PyException ''Unmodelled'')"

fun join_strs :: "val list \<Rightarrow> py_exception + pystr" where
  "join_strs [] = Inr []"
| "join_strs (VStr s # vs) =
     (case join_strs vs of Inl ex \<Rightarrow> Inl ex | Inr t \<Rightarrow> Inr (s @ t))"
| "join_strs (v # vs) = Inl (PyException ''TypeError'')"

fun print_text :: "val list \<Rightarrow> py_exception + pystr" where
  "print_text [] = Inr []"
| "print_text [v] = format_value v"
| "print_text (v # vs) =
     (case format_value v of
        Inl ex \<Rightarrow> Inl ex
      | Inr s \<Rightarrow> (case print_text vs of Inl ex \<Rightarrow> Inl ex | Inr t \<Rightarrow> Inr (s @ [32] @ t)))"

definition builtin_print :: "val list \<Rightarrow> state \<Rightarrow> (py_exception + val) \<times> state" where
  "builtin_print vs st =
     (case print_text vs of
        Inl ex \<Rightarrow> (Inl ex, st)
      | Inr t \<Rightarrow>
          if stdout_accepts st (stdout st) (t @ [newline])
          then (Inr VNone, st\<lparr>stdout := stdout st @ t @ [newline]\<rparr>)
          else (Inl (PyException ''OSError''), st))"

definition call_builtin :: "string \<Rightarrow> val list \<Rightarrow> state \<Rightarrow> (py_exception + val) \<times> state" where
  "call_builtin b vs st =
     (if b = ''print'' then builtin_print vs st else (Inl (PyException ''Unmodelled''), st))"

text \<open>
  Positional arguments against the parameters of a \<open>def\<close>: the defaults belong to the last
  parameters; too many or too few arguments raise \<open>TypeError\<close>.
\<close>

definition bind_arguments ::
  "string list \<Rightarrow> val list \<Rightarrow> val list \<Rightarrow> py_exception + (string \<times> val) list" where
  "bind_arguments ps ds vs =
     (if length ps < length ds \<or> length ps < length vs \<or> length vs + length ds < length ps
      then Inl (PyException ''TypeError'')
      else Inr (zip ps (vs @ drop (length vs + length ds - length ps) ds)))"

fun truthy :: "val \<Rightarrow> bool" where
  "truthy (VStr s) = (s \<noteq> [])"
| "truthy VNone = False"
| "truthy (VBool b) = b"
| "truthy v = True"

fun compare_eq :: "val \<Rightarrow> val \<Rightarrow> py_exception + val" where
  "compare_eq (VStr a) (VStr b) = Inr (VBool (a = b))"
| "compare_eq v1 v2 = Inl (PyException ''Unmodelled'')"

text \<open>
  The interpreter. Fuel bounds the depth of calls and the number of loop iterations: a
  call of a \<open>def\<close> runs the body with one unit less, and so does each further iteration of a
  \<open>while\<close>. The result \<open>None\<close> means that the run did not finish within the fuel; \<open>Inl\<close> is
  an uncaught exception.
\<close>

function (sequential)
  eval :: "nat \<Rightarrow> frame \<Rightarrow> expr \<Rightarrow> state \<Rightarrow> ((py_exception + val) \<times> state) option"
and eval_list :: "nat \<Rightarrow> frame \<Rightarrow> expr list \<Rightarrow> state \<Rightarrow> ((py_exception + val list) \<times> state) option"
and call :: "nat \<Rightarrow> val \<Rightarrow> val list \<Rightarrow> state \<Rightarrow> ((py_exception + val) \<times> state) option"
and exec :: "nat \<Rightarrow> frame \<Rightarrow> stmt \<Rightarrow> state \<Rightarrow> ((py_exception + flow) \<times> frame \<times> state) option"
and exec_block :: "nat \<Rightarrow> frame \<Rightarrow> stmt list \<Rightarrow> state \<Rightarrow> ((py_exception + flow) \<times> frame \<times> state) option"
where
  "eval k fr (Constant s) st = Some (Inr (VStr s), st)"
| "eval k fr (Name x) st = Some (lookup_name fr st x, st)"
| "eval k fr (JoinedStr es) st =
     (case eval_list k fr es st of
        None \<Rightarrow> None
      | Some (Inl ex, st') \<Rightarrow> Some (Inl ex, st')
      | Some (Inr vs, st') \<Rightarrow> Some (map_sum id VStr (join_strs vs), st'))"
| "eval k fr (FormattedValue e) st =
     (case eval k fr e st of
        None \<Rightarrow> None
      | Some (Inl ex, st') \<Rightarrow> Some (Inl ex, st')
      | Some (Inr v, st') \<Rightarrow> Some (map_sum id VStr (format_value v), st'))"
| "eval k fr (Call f args) st =
     (case eval k fr f st of
        None \<Rightarrow> None
      | Some (Inl ex, st1) \<Rightarrow> Some (Inl ex, st1)
      | Some (Inr fv, st1) \<Rightarrow>
          (case eval_list k fr args st1 of
             None \<Rightarrow> None
           | Some (Inl ex, st2) \<Rightarrow> Some (Inl ex, st2)
           | Some (Inr vs, st2) \<Rightarrow> call k fv vs st2))"
| "eval k fr (CompareEq a b) st =
     (case eval k fr a st of
        None \<Rightarrow> None
      | Some (Inl ex, st1) \<Rightarrow> Some (Inl ex, st1)
      | Some (Inr va, st1) \<Rightarrow>
          (case eval k fr b st1 of
             None \<Rightarrow> None
           | Some (Inl ex, st2) \<Rightarrow> Some (Inl ex, st2)
           | Some (Inr vb, st2) \<Rightarrow> Some (compare_eq va vb, st2)))"
| "eval_list k fr [] st = Some (Inr [], st)"
| "eval_list k fr (e # es) st =
     (case eval k fr e st of
        None \<Rightarrow> None
      | Some (Inl ex, st1) \<Rightarrow> Some (Inl ex, st1)
      | Some (Inr v, st1) \<Rightarrow>
          (case eval_list k fr es st1 of
             None \<Rightarrow> None
           | Some (Inl ex, st2) \<Rightarrow> Some (Inl ex, st2)
           | Some (Inr vs, st2) \<Rightarrow> Some (Inr (v # vs), st2)))"
| "call k (VBuiltin b) vs st = Some (call_builtin b vs st)"
| "call 0 (VFunction ps ds body) vs st = None"
| "call (Suc k) (VFunction ps ds body) vs st =
     (case bind_arguments ps ds vs of
        Inl ex \<Rightarrow> Some (Inl ex, st)
      | Inr locals \<Rightarrow>
          (case exec_block k (Some locals) body st of
             None \<Rightarrow> None
           | Some (Inl ex, fr', st') \<Rightarrow> Some (Inl ex, st')
           | Some (Inr Next, fr', st') \<Rightarrow> Some (Inr VNone, st')
           | Some (Inr (Returned v), fr', st') \<Rightarrow> Some (Inr v, st')))"
| "call k v vs st = Some (Inl (PyException ''TypeError''), st)"
| "exec k fr (Expr e) st =
     (case eval k fr e st of
        None \<Rightarrow> None
      | Some (Inl ex, st') \<Rightarrow> Some (Inl ex, fr, st')
      | Some (Inr v, st') \<Rightarrow> Some (Inr Next, fr, st'))"
| "exec k fr (Return e) st =
     (case eval k fr e st of
        None \<Rightarrow> None
      | Some (Inl ex, st') \<Rightarrow> Some (Inl ex, fr, st')
      | Some (Inr v, st') \<Rightarrow> Some (Inr (Returned v), fr, st'))"
| "exec k fr (If c yes no) st =
     (case eval k fr c st of
        None \<Rightarrow> None
      | Some (Inl ex, st') \<Rightarrow> Some (Inl ex, fr, st')
      | Some (Inr v, st') \<Rightarrow>
          (if truthy v then exec_block k fr yes st' else exec_block k fr no st'))"
| "exec 0 fr (While c body) st = None"
| "exec (Suc k) fr (While c body) st =
     (case eval (Suc k) fr c st of
        None \<Rightarrow> None
      | Some (Inl ex, st') \<Rightarrow> Some (Inl ex, fr, st')
      | Some (Inr v, st') \<Rightarrow>
          (if truthy v
           then (case exec_block (Suc k) fr body st' of
                   None \<Rightarrow> None
                 | Some (Inl ex, fr', st'') \<Rightarrow> Some (Inl ex, fr', st'')
                 | Some (Inr (Returned r), fr', st'') \<Rightarrow> Some (Inr (Returned r), fr', st'')
                 | Some (Inr Next, fr', st'') \<Rightarrow> exec k fr' (While c body) st'')
           else Some (Inr Next, fr, st')))"
| "exec k fr (FunctionDef f ps ds body) st =
     (case eval_list k fr ds st of
        None \<Rightarrow> None
      | Some (Inl ex, st') \<Rightarrow> Some (Inl ex, fr, st')
      | Some (Inr dvs, st') \<Rightarrow>
          (case store_name fr st' f (VFunction ps dvs body) of
             (fr', st'') \<Rightarrow> Some (Inr Next, fr', st'')))"
| "exec_block k fr [] st = Some (Inr Next, fr, st)"
| "exec_block k fr (s # ss) st =
     (case exec k fr s st of
        None \<Rightarrow> None
      | Some (Inl ex, fr', st') \<Rightarrow> Some (Inl ex, fr', st')
      | Some (Inr (Returned r), fr', st') \<Rightarrow> Some (Inr (Returned r), fr', st')
      | Some (Inr Next, fr', st') \<Rightarrow> exec_block k fr' ss st')"
  by pat_completeness auto

termination
  apply (relation "inv_image (less_than <*lex*> less_than <*lex*> less_than)
    (\<lambda>x. case x of
       Inl (Inl (k, fr, e, st)) \<Rightarrow> (k, 1, Suc (size e))
     | Inl (Inr (k, fr, es, st)) \<Rightarrow> (k, 1, Suc (size_list size es))
     | Inr (Inl (k, v, vs, st)) \<Rightarrow> (k, 0, 0)
     | Inr (Inr (Inl (k, fr, s, st))) \<Rightarrow> (k, 2, Suc (size s))
     | Inr (Inr (Inr (k, fr, ss, st))) \<Rightarrow> (k, 2, Suc (size_list size ss)))")
  apply auto
  done

text \<open>
  The text of the script, statement by statement, docstrings included, and the two function
  values its \<open>def\<close> statements create.
\<close>

definition greet_body :: "stmt list" where
  "greet_body =
     [Expr (Constant (lit ''Return a greeting message'')),
      Return (JoinedStr [Constant (lit ''Hello, ''), FormattedValue (Name ''name''),
                         Constant (lit ''!'')])]"

definition greet_src :: stmt where
  "greet_src = FunctionDef ''greet'' [''name''] [Constant (lit ''World'')] greet_body"

definition main_body :: "stmt list" where
  "main_body =
     [Expr (Constant (lit ''Main function'')),
      Expr (Call (Name ''print'') [Call (Name ''greet'') []]),
      Expr (Call (Name ''print'') [Call (Name ''greet'') [Constant (lit ''Claude'')]]),
      Expr (Call (Name ''print'') [Call (Name ''greet'') [Constant (lit ''GitHub Actions'')]])]"

definition main_src :: stmt where
  "main_src = FunctionDef ''main'' [] [] main_body"

definition script_src :: "stmt list" where
  "script_src =
     [Expr (Constant ([newline]
        @ lit ''Simple Hello World program for testing Claude Code Action in PRs''
        @ [newline])),
      greet_src,
      main_src,
      If (CompareEq (Name ''__name__'') (Constant (lit ''__main__'')))
        [Expr (Call (Name ''main'') [])]
        []]"

definition greet_fun :: val where
  "greet_fun = VFunction [''name''] [VStr (lit ''World'')] greet_body"

definition main_fun :: val where
  "main_fun = VFunction [] [] main_body"

definition script_globals :: "(string \<times> val) list" where
  "script_globals = [(''__name__'', VStr (lit ''__main__''))]"

definition module_globals :: "(string \<times> val) list" where
  "module_globals = (''main'', main_fun) # (''greet'', greet_fun) # script_globals"

text \<open>
  Run as a script: \<open>__name__\<close> is \<open>"__main__"\<close>; the process exits with status 0 when the
  module body ends and with status 1 on an uncaught exception.
\<close>

definition run_script :: "nat \<Rightarrow> state \<Rightarrow> (nat \<times> state) option" where
  "run_script k st =
     (case exec_block k None script_src (st\<lparr>globals := script_globals\<rparr>) of
        None \<Rightarrow> None
      | Some (Inl ex, fr, st') \<Rightarrow> Some (1, st')
      | Some (Inr fl, fr, st') \<Rightarrow> Some (0, st'))"


text \<open>
  Two readings of the program text: whether a statement contains a loop, and the names an
  expression or statement calls.
\<close>

fun has_loop :: "stmt \<Rightarrow> bool" where
  "has_loop (Expr e) = False"
| "has_loop (Return e) = False"
| "has_loop (If c yes no) = (list_ex has_loop yes \<or> list_ex has_loop no)"
| "has_loop (While c body) = True"
| "has_loop (FunctionDef f ps ds body) = list_ex has_loop body"

fun callees :: "expr \<Rightarrow> string list" where
  "callees (Constant s) = []"
| "callees (Name x) = []"
| "callees (JoinedStr es) = concat (map callees es)"
| "callees (FormattedValue e) = callees e"
| "callees (Call f args) =
     (case f of Name x \<Rightarrow> [x] | _ \<Rightarrow> callees f) @ concat (map callees args)"
| "callees (CompareEq a b) = callees a @ callees b"

fun stmt_callees :: "stmt \<Rightarrow> string list" where
  "stmt_callees (Expr e) = callees e"
| "stmt_callees (Return e) = callees e"
| "stmt_callees (If c yes no) =
     callees c @ concat (map stmt_callees yes) @ concat (map stmt_callees no)"
| "stmt_callees (While c body) = callees c @ concat (map stmt_callees body)"
| "stmt_callees (FunctionDef f ps ds body) = concat (map callees ds)"

text \<open>
  A function that calls itself, for comparison.
\<close>

definition spin_fun :: val where
  "spin_fun = VFunction [] [] [Expr (Call (Name ''spin'') [])]"

section \<open>Shared facts\<close>

lemma greet_some: "greet (Some n) = lit ''Hello, '' @ n @ lit ''!''"
  by (simp add: greet_def bind_name_def)

lemma greet_none: "greet None = lit ''Hello, World!''"
  by (simp add: greet_def bind_name_def name_default_def lit_def)

lemma greet_call_run: "greet_call a w = (Inr (greet a), w)"
  by (simp add: greet_call_def ret_def)

lemma print_greet_run:
  "bind_io (greet_call a) print w = (Inr (), w\<lparr>stdout := stdout w @ greet a @ [newline]\<rparr>)"
  by (simp add: bind_io_def greet_call_run print_def)

lemma main_run:
  "main w =
     (Inr (), w\<lparr>stdout := stdout w
        @ greet None @ [newline]
        @ greet (Some (lit ''Claude'')) @ [newline]
        @ greet (Some (lit ''GitHub Actions'')) @ [newline]\<rparr>)"
  by (simp add: main_def seq_io_def bind_io_def [of "bind_io _ _"] print_greet_run)

text \<open>
  The interpreter on the script: the calls of \<open>greet\<close>, what the \<open>def\<close> statements bind,
  the call of \<open>main\<close> and the run of the whole module. The next facts show what the
  interpreter can tell apart: a loop or a recursion that never ends, a call that raises, a
  device that refuses a write, a run that is short of fuel.
\<close>

lemma greet_call_str:
  "call (Suc k) greet_fun [VStr n] st = Some (Inr (VStr (greet (Some n))), st)"
  by (simp add: greet_fun_def greet_body_def bind_arguments_def lookup_name_def greet_some)

lemma greet_call_default:
  "call (Suc k) greet_fun [] st = Some (Inr (VStr (greet None)), st)"
  by (simp add: greet_fun_def greet_body_def bind_arguments_def lookup_name_def greet_none)
    (simp add: lit_def)

lemma greet_call_two_args:
  "call (Suc k) greet_fun [VStr a, VStr b] st = Some (Inl (PyException ''TypeError''), st)"
  by (simp add: greet_fun_def bind_arguments_def)

lemma greet_call_no_fuel: "call 0 greet_fun vs st = None"
  by (simp add: greet_fun_def)

lemma main_call:
  assumes g: "map_of (globals st) ''greet'' = Some greet_fun"
    and p: "map_of (globals st) ''print'' = None"
    and ok: "\<forall>t s. stdout_accepts st t s"
  shows "call (Suc (Suc k)) main_fun [] st =
     Some (Inr VNone, st\<lparr>stdout := stdout st
        @ greet None @ [newline]
        @ greet (Some (lit ''Claude'')) @ [newline]
        @ greet (Some (lit ''GitHub Actions'')) @ [newline]\<rparr>)"
  using assms
  by (simp add: main_fun_def main_body_def bind_arguments_def lookup_name_def
      call_builtin_def builtin_print_def greet_call_str greet_call_default)

lemma exec_greet_src:
  "exec k None greet_src st = Some (Inr Next, None, st\<lparr>globals := (''greet'', greet_fun) # globals st\<rparr>)"
  by (simp add: greet_src_def greet_fun_def store_name_def)

lemma exec_main_src:
  "exec k None main_src st = Some (Inr Next, None, st\<lparr>globals := (''main'', main_fun) # globals st\<rparr>)"
  by (simp add: main_src_def main_fun_def store_name_def)

lemma module_definitions:
  "exec_block k None [greet_src, main_src] (st\<lparr>globals := script_globals\<rparr>)
     = Some (Inr Next, None, st\<lparr>globals := module_globals\<rparr>)"
  by (simp add: exec_greet_src exec_main_src module_globals_def)

lemma run_script_ok:
  assumes ok: "\<forall>t s. stdout_accepts st t s"
  shows "run_script (Suc (Suc k)) st =
     Some (0, st\<lparr>globals := module_globals, stdout := stdout st
        @ greet None @ [newline]
        @ greet (Some (lit ''Claude'')) @ [newline]
        @ greet (Some (lit ''GitHub Actions'')) @ [newline]\<rparr>)"
proof -
  let ?st = "st\<lparr>globals := module_globals\<rparr>"
  have m: "call (Suc (Suc k)) main_fun [] ?st =
     Some (Inr VNone, ?st\<lparr>stdout := stdout ?st
        @ greet None @ [newline]
        @ greet (Some (lit ''Claude'')) @ [newline]
        @ greet (Some (lit ''GitHub Actions'')) @ [newline]\<rparr>)"
    by (rule main_call) (simp_all add: module_globals_def script_globals_def ok)
  show ?thesis
    by (simp add: run_script_def script_src_def exec_greet_src exec_main_src
        lookup_name_def script_globals_def m [unfolded module_globals_def script_globals_def]
        module_globals_def)
qed

lemma while_true_diverges: "exec k fr (While (Constant (lit ''x'')) []) st = None"
  by (induction k) (simp_all add: lit_def)

lemma recursion_diverges:
  "map_of (globals st) ''spin'' = Some spin_fun \<Longrightarrow> call k spin_fun [] st = None"
proof (induction k)
  case 0
  show ?case by (simp add: spin_fun_def)
next
  case (Suc k)
  have "exec_block k (Some []) [Expr (Call (Name ''spin'') [])] st = None"
    using Suc by (simp add: lookup_name_def)
  then show ?case
    by (simp add: spin_fun_def bind_arguments_def)
qed

lemma script_loop_free: "\<not> list_ex has_loop script_src"
  by (simp add: script_src_def greet_src_def main_src_def greet_body_def main_body_def)

lemma greet_calls_nothing: "concat (map stmt_callees greet_body) = []"
  by (simp add: greet_body_def)

lemma main_calls: "set (concat (map stmt_callees main_body)) = {''print'', ''greet''}"
  by (auto simp add: main_body_def)

lemma run_script_short_of_fuel: "run_script (Suc 0) st = None" "run_script 0 st = None"
  by (simp_all add: run_script_def script_src_def exec_greet_src exec_main_src
      lookup_name_def script_globals_def main_fun_def bind_arguments_def main_body_def
      call_builtin_def builtin_print_def greet_fun_def)

lemma main_without_greet:
  "call (Suc (Suc k)) main_fun [] (st\<lparr>globals := []\<rparr>)
     = Some (Inl (PyException ''NameError''), st\<lparr>globals := []\<rparr>)"
  by (simp add: main_fun_def main_body_def bind_arguments_def lookup_name_def)

lemma run_script_stdout_refuses:
  assumes "\<not> stdout_accepts st (stdout st) (greet None @ [newline])"
  shows "run_script (Suc (Suc k)) st = Some (1, st\<lparr>globals := module_globals\<rparr>)"
  using assms
  by (simp add: run_script_def script_src_def exec_greet_src exec_main_src
      lookup_name_def script_globals_def main_fun_def bind_arguments_def main_body_def
      call_builtin_def builtin_print_def greet_call_default module_globals_def)

lemma run_script_agrees_with_main:
  assumes "\<forall>t s. stdout_accepts st t s"
  shows "map_option (\<lambda>r. stdout (snd r)) (run_script (Suc (Suc k)) st)
         = Some (stdout (snd (main \<lparr>stdout = stdout st\<rparr>)))"
  by (simp add: run_script_ok [OF assms] main_run)

section \<open>The greeting\<close>

text \<open>
  C1: for every string \<open>n\<close>, \<open>greet(n)\<close> is exactly \<open>"Hello, " + n + "!"\<close>: the seven code
  points of the prefix, then \<open>n\<close>, then the exclamation mark.
\<close>

theorem greet_concat:
  "greet (Some n) = lit ''Hello, '' @ n @ lit ''!''
   \<and> greet (Some n) = [72, 101, 108, 108, 111, 44, 32] @ n @ [33]"
  by (simp add: greet_some lit_def)

text \<open>
  C3: \<open>greet()\<close> equals \<open>greet("World")\<close>, and both are \<open>"Hello, World!"\<close>; the default of
  the parameter is the literal \<open>"World"\<close>.
\<close>

theorem greet_default:
  "greet None = greet (Some (lit ''World''))
   \<and> greet (Some (lit ''World'')) = lit ''Hello, World!''
   \<and> greet None = lit ''Hello, World!''
   \<and> name_default = lit ''World''
   \<and> bind_name None = lit ''World''"
  by (simp add: greet_some greet_none bind_name_def name_default_def) (simp add: lit_def)

text \<open>
  C5: \<open>greet("")\<close> is \<open>"Hello, !"\<close>: the empty string goes through the same concatenation as
  any other string, with no check on it.
\<close>

theorem greet_empty:
  "greet (Some (lit '''')) = lit ''Hello, !''
   \<and> greet (Some []) = lit ''Hello, !''
   \<and> greet (Some []) = lit ''Hello, '' @ [] @ lit ''!''"
  by (simp add: greet_some) (simp add: lit_def)

text \<open>
  C10: for every string \<open>n\<close>, the length of \<open>greet(n)\<close> is the length of \<open>n\<close> plus 8: seven
  code points of \<open>"Hello, "\<close> and one of \<open>"!"\<close>.
\<close>

theorem greet_length:
  "length (greet (Some n)) = length n + 8
   \<and> length (lit ''Hello, '') = 7 \<and> length (lit ''!'') = 1"
  by (simp add: greet_some lit_def)

text \<open>
  C7: for every string \<open>name\<close>, \<open>greet(name)\<close> has no leading and no trailing whitespace:
  stripping it changes nothing, its first code point is that of \<open>H\<close> and its last that of
  \<open>!\<close>, and neither is whitespace.
\<close>

theorem greet_no_outer_whitespace:
  "strip (greet (Some name)) = greet (Some name)
   \<and> greet (Some name) \<noteq> []
   \<and> hd (greet (Some name)) = of_char (CHR ''H'')
   \<and> last (greet (Some name)) = of_char (CHR ''!'')
   \<and> \<not> is_space (hd (greet (Some name)))
   \<and> \<not> is_space (last (greet (Some name)))"
  by (simp add: greet_some lit_def strip_def is_space_def)

text \<open>
  C9: the name is recovered from the greeting: for every string \<open>n\<close>, \<open>greet(n)\<close> without its
  first 7 code points and without its last one is \<open>n\<close>; so two different strings have
  different greetings.
\<close>

theorem greet_roundtrip:
  "butlast (drop 7 (greet (Some n))) = n
   \<and> (n1 \<noteq> n2 \<longrightarrow> greet (Some n1) \<noteq> greet (Some n2))"
  by (simp add: greet_some lit_def)

theorem greet_roundtrip_witness:
  "butlast (drop 7 (greet (Some (lit ''Claude'')))) = lit ''Claude''
   \<and> lit ''Claude'' \<noteq> lit ''World''
   \<and> greet (Some (lit ''Claude'')) \<noteq> greet (Some (lit ''World''))"
proof -
  have ne: "lit ''Claude'' \<noteq> lit ''World''"
    by (simp add: lit_def)
  from greet_roundtrip [of "lit ''Claude''" "lit ''Claude''" "lit ''World''"] ne
  show ?thesis by blast
qed

section \<open>Effects and failure\<close>

text \<open>
  C4: \<open>greet\<close> is pure and deterministic. For any string \<open>n\<close>, the call \<open>greet(n)\<close> of the
  function that \<open>def greet\<close> binds returns the greeting of \<open>n\<close> in any two runs, whatever
  their standard output, output device, global names and fuel, so the two results are
  equal; and each run's state after the call is its state before it.
\<close>

theorem greet_pure:
  "call (Suc k) greet_fun [VStr n] st1 = Some (Inr (VStr (greet (Some n))), st1)
   \<and> call (Suc j) greet_fun [VStr n] st2 = Some (Inr (VStr (greet (Some n))), st2)
   \<and> map_option fst (call (Suc k) greet_fun [VStr n] st1)
       = map_option fst (call (Suc j) greet_fun [VStr n] st2)
   \<and> map_option snd (call (Suc k) greet_fun [VStr n] st1) = Some st1
   \<and> exec i None greet_src st
       = Some (Inr Next, None, st\<lparr>globals := (''greet'', greet_fun) # globals st\<rparr>)"
  by (simp add: greet_call_str exec_greet_src)

text \<open>
  C6: \<open>greet\<close> cannot fail on a string: for every string \<open>n\<close> the call returns a string, it
  raises no exception and it does not run out of fuel. And when every write to standard
  output succeeds, no statement of \<open>main\<close> fails: called in the module's globals, \<open>main\<close>
  returns \<open>None\<close>.
\<close>

theorem greet_cannot_fail:
  "(\<exists>s. call (Suc k) greet_fun [VStr n] st = Some (Inr (VStr s), st))
   \<and> (\<forall>ex st'. call (Suc k) greet_fun [VStr n] st \<noteq> Some (Inl ex, st'))
   \<and> call (Suc k) greet_fun [VStr n] st \<noteq> None
   \<and> ((\<forall>t s. stdout_accepts st t s) \<longrightarrow>
        (\<exists>st'. call (Suc (Suc k)) main_fun [] (st\<lparr>globals := module_globals\<rparr>)
                 = Some (Inr VNone, st')))"
proof -
  have "call (Suc (Suc k)) main_fun [] (st\<lparr>globals := module_globals\<rparr>)
        = Some (Inr VNone, st\<lparr>globals := module_globals\<rparr>\<lparr>stdout :=
            stdout (st\<lparr>globals := module_globals\<rparr>)
            @ greet None @ [newline]
            @ greet (Some (lit ''Claude'')) @ [newline]
            @ greet (Some (lit ''GitHub Actions'')) @ [newline]\<rparr>)"
    if "\<forall>t s. stdout_accepts st t s"
    by (rule main_call) (simp_all add: module_globals_def script_globals_def that)
  then show ?thesis
    by (simp add: greet_call_str)
qed

theorem greet_cannot_fail_witness:
  "(\<exists>s. call (Suc 0) greet_fun [VStr (lit ''Claude'')]
            \<lparr>stdout = [], stdout_accepts = (\<lambda>t s. True), globals = []\<rparr>
          = Some (Inr (VStr s), \<lparr>stdout = [], stdout_accepts = (\<lambda>t s. True), globals = []\<rparr>))
   \<and> (\<forall>t s. stdout_accepts \<lparr>stdout = [], stdout_accepts = (\<lambda>t s. True), globals = []\<rparr> t s)
   \<and> (\<exists>st'. call (Suc (Suc 0)) main_fun []
            \<lparr>stdout = [], stdout_accepts = (\<lambda>t s. True), globals = module_globals\<rparr>
          = Some (Inr VNone, st'))"
  using greet_cannot_fail
    [of 0 "lit ''Claude''" "\<lparr>stdout = [], stdout_accepts = (\<lambda>t s. True), globals = []\<rparr>"]
  by simp

section \<open>The entry point\<close>

text \<open>
  C2: \<open>main()\<close> appends exactly three lines to standard output and nothing else, in this
  order: \<open>Hello, World!\<close>, \<open>Hello, Claude!\<close>, \<open>Hello, GitHub Actions!\<close>; each is the result of
  one call of \<open>greet\<close> (no argument, \<open>"Claude"\<close>, \<open>"GitHub Actions"\<close>), on a line of its own,
  in call order.
\<close>

theorem main_output:
  "main w =
     (Inr (), w\<lparr>stdout := stdout w
        @ lit ''Hello, World!'' @ [newline]
        @ lit ''Hello, Claude!'' @ [newline]
        @ lit ''Hello, GitHub Actions!'' @ [newline]\<rparr>)
   \<and> text_lines (stdout (snd (main (w\<lparr>stdout := []\<rparr>))))
       = [lit ''Hello, World!'', lit ''Hello, Claude!'', lit ''Hello, GitHub Actions!'']
   \<and> text_lines (stdout (snd (main (w\<lparr>stdout := []\<rparr>))))
       = [greet None, greet (Some (lit ''Claude'')), greet (Some (lit ''GitHub Actions''))]"
  by (simp add: main_run greet_some greet_none text_lines_def) (simp add: lit_def newline_def)

text \<open>
  C8: the whole program terminates. The script contains no loop, \<open>greet\<close> calls nothing and
  \<open>main\<close> calls only \<open>print\<close> and \<open>greet\<close>; so, when every write to standard output
  succeeds, the run of the script finishes for every fuel of at least 2, the depth of its
  calls: the module body calls \<open>main\<close>, \<open>main\<close> returns after its three statements, and
  the process ends with status 0, the three lines written.
\<close>

theorem script_terminates:
  assumes "\<forall>t s. stdout_accepts st t s" and "2 \<le> fuel"
  shows "run_script fuel st =
           Some (0, st\<lparr>globals := module_globals, stdout := stdout st
              @ greet None @ [newline]
              @ greet (Some (lit ''Claude'')) @ [newline]
              @ greet (Some (lit ''GitHub Actions'')) @ [newline]\<rparr>)
         \<and> \<not> list_ex has_loop script_src
         \<and> concat (map stmt_callees greet_body) = []
         \<and> set (concat (map stmt_callees main_body)) = {''print'', ''greet''}"
proof -
  from assms(2) have "fuel = Suc (Suc (fuel - 2))"
    by simp
  then have "run_script fuel st = run_script (Suc (Suc (fuel - 2))) st"
    by simp
  also note run_script_ok [OF assms(1), of "fuel - 2"]
  finally show ?thesis
    using script_loop_free greet_calls_nothing main_calls by blast
qed

theorem script_terminates_witness:
  "(\<forall>t s. stdout_accepts \<lparr>stdout = [], stdout_accepts = (\<lambda>t s. True), globals = []\<rparr> t s)
   \<and> (2::nat) \<le> 2
   \<and> run_script 2 \<lparr>stdout = [], stdout_accepts = (\<lambda>t s. True), globals = []\<rparr> =
       Some (0, \<lparr>stdout = lit ''Hello, World!'' @ [newline]
                    @ lit ''Hello, Claude!'' @ [newline]
                    @ lit ''Hello, GitHub Actions!'' @ [newline],
                 stdout_accepts = (\<lambda>t s. True), globals = module_globals\<rparr>)"
  using script_terminates
    [of "\<lparr>stdout = [], stdout_accepts = (\<lambda>t s. True), globals = []\<rparr>" 2]
  by (simp add: greet_some greet_none) (simp add: lit_def)

end
